theory Spec2Isabelle
  imports Main "HOL-Library.AList" "HOL-Library.Char_ord" "HOL-Library.List_Lexorder"
begin

section \<open>Stored values and records\<close>

text \<open>
  The activity tracker (\<^verbatim>\<open>main.py\<close>) keeps two collections, each one JSON document
  holding a list of objects that the code handles as \<^verbatim>\<open>Dict[str, Any]\<close>. A stored
  value is modelled by the scalars that the models \<^verbatim>\<open>ActivityType\<close> and
  \<^verbatim>\<open>ActivityRecord\<close> admit: \<^verbatim>\<open>None\<close> (JSON null), an unbounded Python
  integer, or a string. Floats, booleans, arrays and nested objects are not modelled.
  Strings are byte strings; the string functions below are the Python ones on ASCII text.
\<close>

datatype jval = JNull | JInt int | JStr string

text \<open>
  A Python dict keeps its keys in insertion order, so a record is an association list
  (with distinct keys, as every dict has). Assigning to a key that is present replaces
  its value in place and a new key goes to the end: this is \<^const>\<open>AList.update\<close>.
\<close>

type_synonym pdict = "(string \<times> jval) list"

datatype error =
    HTTPException nat string
  | KeyError
  | TypeError
  | AttributeError
  | ValueError
  | OSError

text \<open>\<^verbatim>\<open>a.get(k)\<close>: the value, or \<^verbatim>\<open>None\<close> when the key is missing.\<close>

definition dict_get :: "pdict \<Rightarrow> string \<Rightarrow> jval" where
  "dict_get a k = (case map_of a k of None \<Rightarrow> JNull | Some v \<Rightarrow> v)"

text \<open>\<^verbatim>\<open>a.get(k, d)\<close>: the default only when the key is missing.\<close>

definition dict_get_default :: "pdict \<Rightarrow> string \<Rightarrow> jval \<Rightarrow> jval" where
  "dict_get_default a k d = (case map_of a k of None \<Rightarrow> d | Some v \<Rightarrow> v)"

text \<open>\<^verbatim>\<open>a[k]\<close>: raises \<^verbatim>\<open>KeyError\<close> when the key is missing.\<close>

definition dict_item :: "pdict \<Rightarrow> string \<Rightarrow> error + jval" where
  "dict_item a k = (case map_of a k of None \<Rightarrow> Inl KeyError | Some v \<Rightarrow> Inr v)"

text \<open>Python truth value of a stored scalar: \<^verbatim>\<open>None\<close>, \<^verbatim>\<open>0\<close> and \<^verbatim>\<open>""\<close> are false.\<close>

fun truthy :: "jval \<Rightarrow> bool" where
  "truthy JNull = False"
| "truthy (JInt n) = (n \<noteq> 0)"
| "truthy (JStr s) = (s \<noteq> [])"

subsection \<open>String methods\<close>

text \<open>
  \<^verbatim>\<open>str.isspace\<close> on ASCII: tab, line feed, vertical tab, form feed, carriage return,
  the four separators 0x1C to 0x1F, and space.
\<close>

definition isspace :: "char \<Rightarrow> bool" where
  "isspace c = (let n = (of_char c :: nat) in (9 \<le> n \<and> n \<le> 13) \<or> (28 \<le> n \<and> n \<le> 31) \<or> n = 32)"

text \<open>\<^verbatim>\<open>s.strip()\<close>: leading and trailing whitespace removed.\<close>

definition str_strip :: "string \<Rightarrow> string" where
  "str_strip s = rev (dropWhile isspace (rev (dropWhile isspace s)))"

text \<open>An upper-case ASCII letter becomes lower case by setting bit 5 (adding 32).\<close>

definition lower_char :: "char \<Rightarrow> char" where
  "lower_char c =
     (if CHR ''A'' \<le> c \<and> c \<le> CHR ''Z''
      then (case c of Char b0 b1 b2 b3 b4 b5 b6 b7 \<Rightarrow> Char b0 b1 b2 b3 b4 True b6 b7)
      else c)"

text \<open>\<^verbatim>\<open>s.lower()\<close> on ASCII.\<close>

definition str_lower :: "string \<Rightarrow> string" where
  "str_lower s = map lower_char s"


subsection \<open>Timestamps\<close>

text \<open>
  A naive \<^verbatim>\<open>datetime\<close> with \<^verbatim>\<open>microsecond = 0\<close>, which is what
  \<^verbatim>\<open>datetime.utcnow().replace(microsecond=0)\<close> returns. The clock is an input of
  every operation that reads it.
\<close>

record datetime =
  year :: nat
  month :: nat
  day :: nat
  hour :: nat
  minute :: nat
  second :: nat

definition digit_char :: "nat \<Rightarrow> char" where
  "digit_char n = ''0123456789'' ! (n mod 10)"

definition zfill2 :: "nat \<Rightarrow> string" where
  "zfill2 n = [digit_char (n div 10), digit_char n]"

definition zfill4 :: "nat \<Rightarrow> string" where
  "zfill4 n = [digit_char (n div 1000), digit_char (n div 100), digit_char (n div 10), digit_char n]"

text \<open>\<^verbatim>\<open>d.isoformat()\<close> of such a datetime: \<^verbatim>\<open>YYYY-MM-DDTHH:MM:SS\<close>.\<close>

definition isoformat :: "datetime \<Rightarrow> string" where
  "isoformat d =
     zfill4 (year d) @ ''-'' @ zfill2 (month d) @ ''-'' @ zfill2 (day d) @ ''T'' @
     zfill2 (hour d) @ '':'' @ zfill2 (minute d) @ '':'' @ zfill2 (second d)"

text \<open>\<^verbatim>\<open>_iso_now()\<close>, given the clock reading.\<close>

definition iso_now :: "datetime \<Rightarrow> string" where
  "iso_now now = isoformat now @ ''Z''"

definition isdigit :: "char \<Rightarrow> bool" where
  "isdigit c = (CHR ''0'' \<le> c \<and> c \<le> CHR ''9'')"

definition digit_val :: "char \<Rightarrow> nat" where
  "digit_val c = of_char c - 48"

definition read_number :: "string \<Rightarrow> nat option" where
  "read_number cs =
     (if cs \<noteq> [] \<and> list_all isdigit cs
      then Some (foldl (\<lambda>n c. 10 * n + digit_val c) 0 cs)
      else None)"

definition is_leap :: "nat \<Rightarrow> bool" where
  "is_leap y = (y mod 4 = 0 \<and> (y mod 100 \<noteq> 0 \<or> y mod 400 = 0))"

definition days_in_month :: "nat \<Rightarrow> nat \<Rightarrow> nat" where
  "days_in_month y m =
     (if m = 2 \<and> is_leap y then 29
      else [0, 31, 28, 31, 30, 31, 30, 31, 31, 30, 31, 30, 31] ! m)"

definition days_before_year :: "nat \<Rightarrow> int" where
  "days_before_year y =
     (let y1 = int y - 1 in y1 * 365 + y1 div 4 - y1 div 100 + y1 div 400)"

definition days_before_month :: "nat \<Rightarrow> nat \<Rightarrow> int" where
  "days_before_month y m =
     int ([0, 0, 31, 59, 90, 120, 151, 181, 212, 243, 273, 304, 334] ! m) +
     (if m > 2 \<and> is_leap y then 1 else 0)"

text \<open>The proleptic Gregorian ordinal of the date (\<^verbatim>\<open>date.toordinal\<close>).\<close>

definition toordinal :: "datetime \<Rightarrow> int" where
  "toordinal d = days_before_year (year d) + days_before_month (year d) (month d) + int (day d)"

definition valid_datetime :: "datetime \<Rightarrow> bool" where
  "valid_datetime d =
     (1 \<le> year d \<and> year d \<le> 9999 \<and> 1 \<le> month d \<and> month d \<le> 12 \<and>
      1 \<le> day d \<and> day d \<le> days_in_month (year d) (month d) \<and>
      hour d < 24 \<and> minute d < 60 \<and> second d < 60)"

text \<open>
  \<^verbatim>\<open>datetime.fromisoformat\<close> on the format that \<^verbatim>\<open>isoformat\<close> writes above:
  four, two and two digits for the date, any one separator character, and two digits
  each for hour, minute and second, all in range. Python accepts further ISO 8601
  variants (a date alone, fractional seconds, a UTC offset); they are outside this
  model, which answers \<^verbatim>\<open>ValueError\<close> for every other string.
\<close>

definition fromisoformat :: "string \<Rightarrow> error + datetime" where
  "fromisoformat s =
     (if length s = 19 \<and> s ! 4 = CHR ''-'' \<and> s ! 7 = CHR ''-'' \<and>
         s ! 13 = CHR '':'' \<and> s ! 16 = CHR '':''
      then
        (case (read_number (take 4 s), read_number (take 2 (drop 5 s)),
               read_number (take 2 (drop 8 s)), read_number (take 2 (drop 11 s)),
               read_number (take 2 (drop 14 s)), read_number (take 2 (drop 17 s))) of
           (Some y, Some m, Some d, Some h, Some mi, Some se) \<Rightarrow>
             (let dt = \<lparr>year = y, month = m, day = d, hour = h, minute = mi, second = se\<rparr>
              in if valid_datetime dt then Inr dt else Inl ValueError)
         | _ \<Rightarrow> Inl ValueError)
      else Inl ValueError)"

text \<open>
  \<^verbatim>\<open>int((e - s).total_seconds())\<close> for two naive datetimes: the difference of the
  ordinals in days plus the difference of the times of day, in seconds. Both have no
  microseconds, so the float is a whole number and \<^verbatim>\<open>int\<close> does not round.
\<close>

definition seconds_of_day :: "datetime \<Rightarrow> int" where
  "seconds_of_day d = int (hour d) * 3600 + int (minute d) * 60 + int (second d)"

definition total_seconds :: "datetime \<Rightarrow> datetime \<Rightarrow> int" where
  "total_seconds e s = (toordinal e - toordinal s) * 86400 + (seconds_of_day e - seconds_of_day s)"

text \<open>
  \<^verbatim>\<open>datetime.fromisoformat(v.replace("Z", ""))\<close> on a stored value: every
  \<^verbatim>\<open>Z\<close> is removed before parsing; a value that is not a string has no method
  \<^verbatim>\<open>replace\<close>.
\<close>

fun parse_start :: "jval \<Rightarrow> error + datetime" where
  "parse_start (JStr s) = fromisoformat (filter (\<lambda>c. c \<noteq> CHR ''Z'') s)"
| "parse_start v = Inl AttributeError"

section \<open>The document store\<close>

text \<open>
  The file system is a map from paths to documents. A document is described by what
  \<^verbatim>\<open>json.load\<close> makes of it: the list of records it holds, or
  \<^verbatim>\<open>JSONDecodeError\<close>. \<^verbatim>\<open>json.dump\<close> followed by \<^verbatim>\<open>json.load\<close> returns the
  records written, so writing stores the list itself. Renaming a file
  (\<^verbatim>\<open>Path.replace\<close>) is the one system call whose failure the code handles; the
  paths it fails for are part of the state. Other input/output errors are not modelled.
\<close>

type_synonym path = string

datatype document = Unparseable | Parsed "pdict list"

record fs =
  files :: "path \<rightharpoonup> document"
  replace_denied :: "path set"

definition DATA_DIR :: path where
  "DATA_DIR = ''data''"

definition TYPES_FILE :: path where
  "TYPES_FILE = DATA_DIR @ ''/activity_types.json''"

definition ACTIVITIES_FILE :: path where
  "ACTIVITIES_FILE = DATA_DIR @ ''/activities.json''"

text \<open>\<^verbatim>\<open>src.replace(dst)\<close>: \<^verbatim>\<open>None\<close> when it raises, else the state after the move.\<close>

definition os_replace :: "fs \<Rightarrow> path \<Rightarrow> path \<Rightarrow> fs option" where
  "os_replace s src dst =
     (case files s src of
        None \<Rightarrow> None
      | Some doc \<Rightarrow>
          if src \<in> replace_denied s then None
          else Some (s\<lparr>files := (files s)(src := None, dst \<mapsto> doc)\<rparr>))"

text \<open>
  \<^verbatim>\<open>_read_json(path, default)\<close>. \<^verbatim>\<open>path.with_suffix(path.suffix + ".bak")\<close>
  appends \<^verbatim>\<open>.bak\<close> to the file name.
\<close>

definition read_json :: "fs \<Rightarrow> path \<Rightarrow> pdict list \<Rightarrow> pdict list \<times> fs" where
  "read_json s path dflt =
     (case files s path of
        None \<Rightarrow> (dflt, s)
      | Some (Parsed items) \<Rightarrow> (items, s)
      | Some Unparseable \<Rightarrow>
          (let backup = path @ ''.bak'' in
           case os_replace s path backup of
             None \<Rightarrow> (dflt, s)
           | Some s' \<Rightarrow> (dflt, s')))"

text \<open>
  \<^verbatim>\<open>_write_json(path, data)\<close>: the document is written to the sibling
  \<^verbatim>\<open>.tmp\<close> file, which then replaces the file. A failing replace raises.
\<close>

definition write_json :: "fs \<Rightarrow> path \<Rightarrow> pdict list \<Rightarrow> (error + unit) \<times> fs" where
  "write_json s path data =
     (let tmp_path = path @ ''.tmp'';
          s1 = s\<lparr>files := (files s)(tmp_path \<mapsto> Parsed data)\<rparr>
      in case os_replace s1 tmp_path path of
           None \<Rightarrow> (Inl OSError, s1)
         | Some s2 \<Rightarrow> (Inr (), s2))"

text \<open>\<^verbatim>\<open>Load\<close>: the collection a path holds, as \<^verbatim>\<open>_read_json(path, [])\<close> returns it.\<close>

definition stored :: "fs \<Rightarrow> path \<Rightarrow> pdict list" where
  "stored s path = fst (read_json s path [])"

section \<open>Activity types\<close>

text \<open>
  The request bodies \<^verbatim>\<open>ActivityTypeIn\<close> and \<^verbatim>\<open>ActivityStartIn\<close> declare the same
  two string fields. The identifier \<^verbatim>\<open>str(uuid4())\<close> is an input of the operations
  that draw one.
\<close>

record ActivityTypeIn =
  activity_category :: string
  activity_name :: string

type_synonym ActivityStartIn = ActivityTypeIn




text \<open>
  \<^verbatim>\<open>for idx, it in enumerate(items): if it.get("id") == ident: ...\<close>, where the body
  always returns or raises: the loop finds the first record with the identifier.
\<close>

fun find_id :: "nat \<Rightarrow> pdict list \<Rightarrow> string \<Rightarrow> (nat \<times> pdict) option" where
  "find_id idx [] ident = None"
| "find_id idx (it # items) ident =
     (if dict_get it ''id'' = JStr ident then Some (idx, it)
      else find_id (Suc idx) items ident)"



section \<open>Activities\<close>

definition start_activity ::
  "fs \<Rightarrow> ActivityStartIn \<Rightarrow> string \<Rightarrow> datetime \<Rightarrow> (error + pdict) \<times> fs" where
  "start_activity s payload uuid now =
     (let (activities, s1) = read_json s ACTIVITIES_FILE [];
          active_exists = list_ex (\<lambda>a. dict_get a ''end_time'' \<in> {JNull, JStr []}) activities
      in if active_exists
         then (Inl (HTTPException 400
                 ''An activity is already in progress. End it before starting a new one.''), s1)
         else
           (let new_record = [(''id'', JStr uuid),
                              (''activity_category'', JStr (str_strip (activity_category payload))),
                              (''activity_name'', JStr (str_strip (activity_name payload))),
                              (''start_time'', JStr (iso_now now)),
                              (''end_time'', JNull),
                              (''duration_seconds'', JNull)];
                activities' = activities @ [new_record]
            in case write_json s1 ACTIVITIES_FILE activities' of
                 (Inl e, s2) \<Rightarrow> (Inl e, s2)
               | (Inr u, s2) \<Rightarrow> (Inr new_record, s2)))"

text \<open>
  \<^verbatim>\<open>{**a, "end_time": ..., "duration_seconds": ...}\<close> keeps the keys of \<^verbatim>\<open>a\<close> in
  place and sets the two fields.
\<close>

definition end_activity :: "fs \<Rightarrow> string \<Rightarrow> datetime \<Rightarrow> (error + pdict) \<times> fs" where
  "end_activity s payload_id now =
     (let (activities, s1) = read_json s ACTIVITIES_FILE [] in
      case find_id 0 activities payload_id of
        None \<Rightarrow> (Inl (HTTPException 404 ''Active activity not found''), s1)
      | Some (idx, a) \<Rightarrow>
          if truthy (dict_get a ''end_time'')
          then (Inl (HTTPException 400 ''Activity already ended''), s1)
          else
            (let end_time = now in
             case dict_item a ''start_time'' of
               Inl e \<Rightarrow> (Inl e, s1)
             | Inr v \<Rightarrow>
                 (case parse_start v of
                    Inl e \<Rightarrow> (Inl e, s1)
                  | Inr start \<Rightarrow>
                      (let duration = total_seconds end_time start;
                           updated = AList.update ''duration_seconds'' (JInt duration)
                                       (AList.update ''end_time'' (JStr (isoformat end_time @ ''Z'')) a);
                           activities' = activities[idx := updated]
                       in case write_json s1 ACTIVITIES_FILE activities' of
                            (Inl e, s2) \<Rightarrow> (Inl e, s2)
                          | (Inr u, s2) \<Rightarrow> (Inr updated, s2)))))"

definition get_active_activity :: "fs \<Rightarrow> pdict option \<times> fs" where
  "get_active_activity s =
     (let (activities, s1) = read_json s ACTIVITIES_FILE [] in
      (find (\<lambda>a. \<not> truthy (dict_get a ''end_time'')) activities, s1))"

section \<open>Summary\<close>

text \<open>
  \<^verbatim>\<open>v[0:10]\<close>: the first ten characters of a string (fewer when it is shorter); a
  value that is not a string cannot be sliced.
\<close>

fun slice_0_10 :: "jval \<Rightarrow> error + string" where
  "slice_0_10 (JStr s) = Inr (take 10 s)"
| "slice_0_10 v = Inl TypeError"

text \<open>
  A decimal literal as \<^verbatim>\<open>int\<close> reads it after the sign: digits, which single
  underscores may separate.
\<close>

definition int_literal :: "string \<Rightarrow> nat option" where
  "int_literal cs =
     (if cs \<noteq> [] \<and> isdigit (hd cs) \<and> isdigit (last cs) \<and>
         list_all (\<lambda>c. isdigit c \<or> c = CHR ''_'') cs \<and>
         \<not> list_ex (\<lambda>(c, c'). c = CHR ''_'' \<and> c' = CHR ''_'') (zip cs (tl cs))
      then read_number (filter (\<lambda>c. c \<noteq> CHR ''_'') cs)
      else None)"

text \<open>
  \<^verbatim>\<open>int(v)\<close> on a stored value: an integer is itself; a string is stripped and
  read as a signed decimal literal, \<^verbatim>\<open>ValueError\<close> otherwise; \<^verbatim>\<open>None\<close> is a
  \<^verbatim>\<open>TypeError\<close>.
\<close>

fun py_int :: "jval \<Rightarrow> error + int" where
  "py_int (JInt n) = Inr n"
| "py_int JNull = Inl TypeError"
| "py_int (JStr s) =
     (case str_strip s of
        [] \<Rightarrow> Inl ValueError
      | c # cs \<Rightarrow>
          (case (if c = CHR ''-'' then map_option (\<lambda>n. - int n) (int_literal cs)
                 else if c = CHR ''+'' then map_option int (int_literal cs)
                 else map_option int (int_literal (c # cs))) of
             None \<Rightarrow> Inl ValueError
           | Some n \<Rightarrow> Inr n))"

text \<open>The expressions of the loop body of \<^verbatim>\<open>get_summary\<close>, each on one record.\<close>

definition skipped :: "pdict \<Rightarrow> bool" where
  \<comment> \<open>\<^verbatim>\<open>not a.get("end_time") or not a.get("duration_seconds")\<close>\<close>
  "skipped a = (\<not> truthy (dict_get a ''end_time'') \<or> \<not> truthy (dict_get a ''duration_seconds''))"

definition date_key :: "pdict \<Rightarrow> error + string" where
  \<comment> \<open>\<^verbatim>\<open>a["start_time"][0:10]\<close>\<close>
  "date_key a = (case dict_item a ''start_time'' of Inl e \<Rightarrow> Inl e | Inr v \<Rightarrow> slice_0_10 v)"

definition category_key :: "pdict \<Rightarrow> jval" where
  \<comment> \<open>\<^verbatim>\<open>a.get("activity_category", "other")\<close>\<close>
  "category_key a = dict_get_default a ''activity_category'' (JStr ''other'')"

definition seconds :: "pdict \<Rightarrow> error + int" where
  \<comment> \<open>\<^verbatim>\<open>int(a["duration_seconds"])\<close>\<close>
  "seconds a = (case dict_item a ''duration_seconds'' of Inl e \<Rightarrow> Inl e | Inr v \<Rightarrow> py_int v)"

text \<open>
  The aggregate \<^verbatim>\<open>agg: Dict[str, Dict[str, int]]\<close>. The inner key is whatever
  \<^verbatim>\<open>category_key\<close> returns, so it is a stored value.
\<close>

type_synonym buckets = "(jval \<times> int) list"

type_synonym aggregate = "(string \<times> buckets) list"

definition setdefault :: "aggregate \<Rightarrow> string \<Rightarrow> aggregate" where
  \<comment> \<open>\<^verbatim>\<open>agg.setdefault(k, {})\<close>\<close>
  "setdefault agg k = (case map_of agg k of None \<Rightarrow> agg @ [(k, [])] | Some b \<Rightarrow> agg)"

definition buckets_get :: "buckets \<Rightarrow> jval \<Rightarrow> int \<Rightarrow> int" where
  \<comment> \<open>\<^verbatim>\<open>b.get(cat, 0)\<close>\<close>
  "buckets_get b cat d = (case map_of b cat of None \<Rightarrow> d | Some n \<Rightarrow> n)"

fun summary_loop :: "pdict list \<Rightarrow> aggregate \<Rightarrow> error + aggregate" where
  "summary_loop [] agg = Inr agg"
| "summary_loop (a # activities) agg =
     (if skipped a then summary_loop activities agg
      else
        (case date_key a of
           Inl e \<Rightarrow> Inl e
         | Inr dk \<Rightarrow>
             (let cat = category_key a;
                  agg1 = setdefault agg dk
              in case map_of agg1 dk of
                   None \<Rightarrow> Inl KeyError
                 | Some b \<Rightarrow>
                     (case seconds a of
                        Inl e \<Rightarrow> Inl e
                      | Inr n \<Rightarrow>
                          summary_loop activities
                            (AList.update dk (AList.update cat (buckets_get b cat 0 + n) b) agg1)))))"

record summary =
  dates :: "string list"
  data :: aggregate

definition get_summary :: "fs \<Rightarrow> (error + summary) \<times> fs" where
  "get_summary s =
     (let (activities, s1) = read_json s ACTIVITIES_FILE [] in
      case summary_loop activities [] of
        Inl e \<Rightarrow> (Inl e, s1)
      | Inr agg \<Rightarrow>
          (let dates_sorted = sort (map fst agg)
           in (Inr \<lparr>dates = dates_sorted, data = agg\<rparr>, s1)))"

section \<open>Sequences of lifecycle calls\<close>

text \<open>
  A call of \<^verbatim>\<open>start_activity\<close> or \<^verbatim>\<open>end_activity\<close> together with what it reads
  from its environment: the request, the identifier drawn and the clock.
\<close>

datatype call = Start ActivityStartIn string datetime | End string datetime

fun step :: "fs \<Rightarrow> call \<Rightarrow> fs" where
  "step s (Start payload uuid now) = snd (start_activity s payload uuid now)"
| "step s (End payload_id now) = snd (end_activity s payload_id now)"

text \<open>The states a sequence of calls goes through, the first one included.\<close>

fun states :: "fs \<Rightarrow> call list \<Rightarrow> fs list" where
  "states s [] = [s]"
| "states s (c # cs) = s # states (step s c) cs"

text \<open>The records of a collection whose \<^verbatim>\<open>end_time\<close> is absent (missing or null).\<close>

definition open_records :: "pdict list \<Rightarrow> pdict list" where
  "open_records activities = filter (\<lambda>a. dict_get a ''end_time'' = JNull) activities"

definition at_most_one_open :: "fs \<Rightarrow> bool" where
  "at_most_one_open s = (length (open_records (stored s ACTIVITIES_FILE)) \<le> 1)"



text \<open>\<^verbatim>\<open>data[d][c]\<close> of a summary, when both keys are present.\<close>

definition lookup :: "aggregate \<Rightarrow> string \<Rightarrow> jval \<Rightarrow> int option" where
  "lookup agg d c = (case map_of agg d of None \<Rightarrow> None | Some b \<Rightarrow> map_of b c)"

text \<open>The position of a datetime on the time line, in seconds.\<close>

definition timestamp :: "datetime \<Rightarrow> int" where
  "timestamp d = toordinal d * 86400 + seconds_of_day d"


section \<open>Example inputs\<close>

definition empty_store :: fs where
  "empty_store = \<lparr>files = Map.empty, replace_denied = {}\<rparr>"



definition activities_store :: "pdict list \<Rightarrow> fs" where
  "activities_store activities = \<lparr>files = [ACTIVITIES_FILE \<mapsto> Parsed activities], replace_denied = {}\<rparr>"

definition types_store :: "pdict list \<Rightarrow> fs" where
  "types_store items = \<lparr>files = [TYPES_FILE \<mapsto> Parsed items], replace_denied = {}\<rparr>"

definition activity_record :: "string \<Rightarrow> string \<Rightarrow> string \<Rightarrow> jval \<Rightarrow> jval \<Rightarrow> pdict" where
  "activity_record ident category start_time end_time duration_seconds =
     [(''id'', JStr ident), (''activity_category'', JStr category), (''activity_name'', JStr ''run''),
      (''start_time'', JStr start_time), (''end_time'', end_time),
      (''duration_seconds'', duration_seconds)]"

definition sports_run :: ActivityTypeIn where
  "sports_run = \<lparr>activity_category = ''Sports'', activity_name = ''Run''\<rparr>"

definition sports_run_variant :: ActivityTypeIn where
  "sports_run_variant = \<lparr>activity_category = '' sports '', activity_name = ''RUN''\<rparr>"

definition ten_o_clock :: datetime where
  "ten_o_clock = \<lparr>year = 2025, month = 11, day = 3, hour = 10, minute = 0, second = 0\<rparr>"

definition nine_past_ten :: datetime where
  "nine_past_ten = \<lparr>year = 2025, month = 11, day = 3, hour = 10, minute = 0, second = 9\<rparr>"

definition blank_end_record :: pdict where
  "blank_end_record =
     activity_record ''a1'' ''sports'' ''2025-11-03T10:00:00Z'' (JStr []) JNull"

definition open_record :: pdict where
  "open_record = activity_record ''a1'' ''sports'' ''2025-11-03T10:00:09Z'' JNull JNull"

definition closed_record :: pdict where
  "closed_record =
     activity_record ''a1'' ''sports'' ''2025-11-03T10:00:00Z'' (JStr ''2025-11-03T11:30:00Z'') (JInt 5400)"

definition second_open_record :: pdict where
  "second_open_record = activity_record ''a2'' ''sports'' ''2025-11-03T10:00:00Z'' JNull JNull"

definition second_blank_record :: pdict where
  "second_blank_record = activity_record ''a2'' ''sports'' ''2025-11-03T10:00:00Z'' (JStr []) JNull"

definition example_calls :: "call list" where
  "example_calls =
     [Start sports_run ''a1'' ten_o_clock, Start sports_run ''a2'' nine_past_ten,
      End ''a1'' nine_past_ten, Start sports_run_variant ''a3'' nine_past_ten]"

definition sports_type :: pdict where
  "sports_type =
     [(''id'', JStr ''t1''), (''activity_category'', JStr ''Sports''), (''activity_name'', JStr ''Run'')]"

definition study_type :: pdict where
  "study_type =
     [(''id'', JStr ''t2''), (''activity_category'', JStr ''Study''), (''activity_name'', JStr ''Read'')]"

definition study_read_padded :: ActivityTypeIn where
  "study_read_padded = \<lparr>activity_category = '' study'', activity_name = ''READ ''\<rparr>"

definition sports_noon :: pdict where
  "sports_noon =
     activity_record ''a2'' ''sports'' ''2025-11-03T12:00:00Z'' (JStr ''2025-11-03T12:30:00Z'') (JInt 1800)"

definition blank_category_record :: pdict where
  "blank_category_record =
     activity_record ''a3'' [] ''2025-11-03T09:00:00Z'' (JStr ''2025-11-03T09:00:07Z'') (JInt 7)"

definition no_category_record :: pdict where
  "no_category_record =
     [(''id'', JStr ''a4''), (''start_time'', JStr ''2025-11-02T23:59:00Z''),
      (''end_time'', JStr ''2025-11-03T00:00:00Z''), (''duration_seconds'', JInt 60)]"

definition mixed_store :: fs where
  "mixed_store =
     activities_store [closed_record, blank_category_record, sports_noon, no_category_record]"

definition mixed_summary :: summary where
  "mixed_summary =
     \<lparr>dates = [''2025-11-02'', ''2025-11-03''],
      data = [(''2025-11-03'', [(JStr ''sports'', 7200), (JStr [], 7)]),
              (''2025-11-02'', [(JStr ''other'', 60)])]\<rparr>"

definition blank_end_with_duration :: pdict where
  "blank_end_with_duration =
     activity_record ''a5'' ''sports'' ''2025-11-03T10:00:00Z'' (JStr []) (JInt 5)"

section \<open>The store\<close>

lemma read_json_cases:
  "read_json s p d =
     (case files s p of
        None \<Rightarrow> (d, s)
      | Some (Parsed items) \<Rightarrow> (items, s)
      | Some Unparseable \<Rightarrow>
          if p \<in> replace_denied s then (d, s)
          else (d, s\<lparr>files := (files s)(p := None, p @ ''.bak'' \<mapsto> Unparseable)\<rparr>))"
  by (simp add: read_json_def os_replace_def Let_def split: option.splits document.splits)

lemma fst_read_json: "fst (read_json s p []) = stored s p"
  by (simp add: stored_def)

lemma stored_snd_read_json: "stored (snd (read_json s p d)) p = stored s p"
  by (simp add: stored_def read_json_cases split: option.splits document.splits)

lemma denied_snd_read_json: "replace_denied (snd (read_json s p d)) = replace_denied s"
  by (simp add: read_json_cases split: option.splits document.splits)

lemma write_json_fst:
  "fst (write_json s p xs) = (if p @ ''.tmp'' \<in> replace_denied s then Inl OSError else Inr ())"
  by (simp add: write_json_def os_replace_def Let_def)

lemma stored_write_json:
  "stored (snd (write_json s p xs)) p = (if p @ ''.tmp'' \<in> replace_denied s then stored s p else xs)"
  by (simp add: write_json_def os_replace_def Let_def stored_def read_json_cases
      split: option.splits document.splits)

lemma denied_snd_write_json: "replace_denied (snd (write_json s p xs)) = replace_denied s"
  by (simp add: write_json_def os_replace_def Let_def)

lemma start_activity_cases:
  "start_activity s payload uuid now =
    (let activities = stored s ACTIVITIES_FILE; s1 = snd (read_json s ACTIVITIES_FILE []);
         new_record = [(''id'', JStr uuid),
                       (''activity_category'', JStr (str_strip (activity_category payload))),
                       (''activity_name'', JStr (str_strip (activity_name payload))),
                       (''start_time'', JStr (iso_now now)),
                       (''end_time'', JNull),
                       (''duration_seconds'', JNull)]
     in if (\<exists>a\<in>set activities. dict_get a ''end_time'' = JNull \<or> dict_get a ''end_time'' = JStr [])
        then (Inl (HTTPException 400 ''An activity is already in progress. End it before starting a new one.''), s1)
        else (if ACTIVITIES_FILE @ ''.tmp'' \<in> replace_denied s then Inl OSError else Inr new_record,
              snd (write_json s1 ACTIVITIES_FILE (activities @ [new_record]))))"
  by (simp add: start_activity_def stored_def Let_def list_ex_iff split_beta write_json_fst
        denied_snd_read_json split: prod.splits sum.splits)


lemma find_id_first:
  "\<forall>b\<in>set pre. dict_get b ''id'' \<noteq> JStr i \<Longrightarrow> dict_get a ''id'' = JStr i \<Longrightarrow>
   find_id idx (pre @ a # post) i = Some (idx + length pre, a)"
  by (induction pre arbitrary: idx) auto


lemma end_activity_cases:
  "end_activity s ident now =
    (let activities = stored s ACTIVITIES_FILE; s1 = snd (read_json s ACTIVITIES_FILE []) in
     case find_id 0 activities ident of
       None \<Rightarrow> (Inl (HTTPException 404 ''Active activity not found''), s1)
     | Some (idx, a) \<Rightarrow>
         if truthy (dict_get a ''end_time'')
         then (Inl (HTTPException 400 ''Activity already ended''), s1)
         else (case dict_item a ''start_time'' of
                 Inl e \<Rightarrow> (Inl e, s1)
               | Inr v \<Rightarrow>
                  (case parse_start v of
                     Inl e \<Rightarrow> (Inl e, s1)
                   | Inr start \<Rightarrow>
                      (let updated = AList.update ''duration_seconds'' (JInt (total_seconds now start))
                                       (AList.update ''end_time'' (JStr (isoformat now @ ''Z'')) a)
                       in (if ACTIVITIES_FILE @ ''.tmp'' \<in> replace_denied s then Inl OSError
                           else Inr updated,
                           snd (write_json s1 ACTIVITIES_FILE (activities[idx := updated])))))))"
  by (simp add: end_activity_def stored_def Let_def split_beta write_json_fst
        denied_snd_read_json split: prod.splits sum.splits option.splits)

lemma dict_get_update: "dict_get (AList.update k v a) k' = (if k' = k then v else dict_get a k')"
  by (simp add: dict_get_def update_conv')

lemma list_update_middle: "(pre @ a # post)[length pre := u] = pre @ u # post"
  by simp

section \<open>The calendar\<close>













text \<open>The definitions that the evaluation of a concrete call unfolds.\<close>

lemmas example_defs =
  empty_store_def activities_store_def types_store_def activity_record_def sports_run_def
  sports_run_variant_def ten_o_clock_def nine_past_ten_def blank_end_record_def open_record_def
  closed_record_def second_open_record_def second_blank_record_def
  sports_type_def study_type_def study_read_padded_def
  sports_noon_def blank_category_record_def no_category_record_def
  mixed_store_def mixed_summary_def blank_end_with_duration_def
  ACTIVITIES_FILE_def TYPES_FILE_def DATA_DIR_def

lemmas eval_defs =
  stored_def read_json_def write_json_def os_replace_def dict_get_def dict_get_default_def
  dict_item_def str_strip_def str_lower_def lower_char_def isspace_def
  iso_now_def isoformat_def zfill2_def zfill4_def digit_char_def
  fromisoformat_def read_number_def isdigit_def digit_val_def valid_datetime_def
  days_in_month_def is_leap_def total_seconds_def toordinal_def days_before_year_def
  days_before_month_def seconds_of_day_def

section \<open>Loading a collection\<close>



section \<open>Starting an activity\<close>




section \<open>Ending an activity\<close>


lemma total_seconds_timestamp: "total_seconds e s = timestamp e - timestamp s"
  by (simp add: total_seconds_def timestamp_def algebra_simps)




section \<open>An empty end time\<close>

lemma get_active_activity_cases:
  "get_active_activity s =
     (find (\<lambda>a. \<not> truthy (dict_get a ''end_time'')) (stored s ACTIVITIES_FILE),
      snd (read_json s ACTIVITIES_FILE []))"
  by (simp add: get_active_activity_def stored_def split_beta)

lemma find_first:
  "\<forall>b\<in>set pre. \<not> P b \<Longrightarrow> P a \<Longrightarrow> find P (pre @ a # post) = Some a"
  by (induction pre) auto

text \<open>
  Claim C10. While the collection holds a record whose \<^verbatim>\<open>end_time\<close> is the empty
  string, \<^verbatim>\<open>start_activity\<close> fails with the 400 response "An activity is already
  in progress" and changes nothing; \<^verbatim>\<open>get_active_activity\<close> returns that record
  when no record before it is open as well; and \<^verbatim>\<open>end_activity\<close> on its
  identifier (when it is the first record with it, its \<^verbatim>\<open>start_time\<close> parses and
  the store accepts the write) closes it instead of answering "Activity already ended".
\<close>

theorem empty_end_time_is_open:
  "stored s ACTIVITIES_FILE = pre @ a # post \<and> dict_get a ''end_time'' = JStr [] \<longrightarrow>
     fst (start_activity s payload uuid now) =
       Inl (HTTPException 400
         ''An activity is already in progress. End it before starting a new one.'') \<and>
     stored (snd (start_activity s payload uuid now)) ACTIVITIES_FILE = stored s ACTIVITIES_FILE \<and>
     ((\<forall>b\<in>set pre. truthy (dict_get b ''end_time'')) \<longrightarrow>
        fst (get_active_activity s) = Some a) \<and>
     ((\<forall>b\<in>set pre. dict_get b ''id'' \<noteq> JStr ident) \<and> dict_get a ''id'' = JStr ident \<and>
      map_of a ''start_time'' = Some (JStr st) \<and>
      fromisoformat (filter (\<lambda>c. c \<noteq> CHR ''Z'') st) = Inr start \<and>
      ACTIVITIES_FILE @ ''.tmp'' \<notin> replace_denied s \<longrightarrow>
        (let updated = AList.update ''duration_seconds'' (JInt (timestamp now - timestamp start))
                         (AList.update ''end_time'' (JStr (isoformat now @ ''Z'')) a)
         in fst (end_activity s ident now) = Inr updated \<and>
            stored (snd (end_activity s ident now)) ACTIVITIES_FILE = pre @ updated # post \<and>
            truthy (dict_get updated ''end_time'')))"
proof (intro impI, elim conjE)
  assume st: "stored s ACTIVITIES_FILE = pre @ a # post" and e: "dict_get a ''end_time'' = JStr []"
  from st e have ex: "\<exists>b\<in>set (stored s ACTIVITIES_FILE).
      dict_get b ''end_time'' = JNull \<or> dict_get b ''end_time'' = JStr []"
    by auto
  have start: "fst (start_activity s payload uuid now) =
       Inl (HTTPException 400
         ''An activity is already in progress. End it before starting a new one.'') \<and>
     stored (snd (start_activity s payload uuid now)) ACTIVITIES_FILE = stored s ACTIVITIES_FILE"
    using ex by (simp add: start_activity_cases Let_def stored_snd_read_json)
  have active: "fst (get_active_activity s) = Some a"
    if "\<forall>b\<in>set pre. truthy (dict_get b ''end_time'')"
    using that st e find_first [of pre "\<lambda>a. \<not> truthy (dict_get a ''end_time'')" a post]
    by (simp add: get_active_activity_cases)
  have found: "find_id 0 (stored s ACTIVITIES_FILE) ident = Some (length pre, a)"
    if "\<forall>b\<in>set pre. dict_get b ''id'' \<noteq> JStr ident" "dict_get a ''id'' = JStr ident"
    using that st find_id_first [of pre ident a 0 post] by simp
  have closes: "let updated = AList.update ''duration_seconds'' (JInt (timestamp now - timestamp start))
                         (AList.update ''end_time'' (JStr (isoformat now @ ''Z'')) a)
         in fst (end_activity s ident now) = Inr updated \<and>
            stored (snd (end_activity s ident now)) ACTIVITIES_FILE = pre @ updated # post \<and>
            truthy (dict_get updated ''end_time'')"
    if "find_id 0 (stored s ACTIVITIES_FILE) ident = Some (length pre, a)"
      "map_of a ''start_time'' = Some (JStr st)"
      "fromisoformat (filter (\<lambda>c. c \<noteq> CHR ''Z'') st) = Inr start"
      "ACTIVITIES_FILE @ ''.tmp'' \<notin> replace_denied s"
    using that st e
    by (simp add: end_activity_cases Let_def stored_snd_read_json stored_write_json
        denied_snd_read_json dict_item_def total_seconds_timestamp dict_get_update isoformat_def)
  show "fst (start_activity s payload uuid now) =
       Inl (HTTPException 400
         ''An activity is already in progress. End it before starting a new one.'') \<and>
     stored (snd (start_activity s payload uuid now)) ACTIVITIES_FILE = stored s ACTIVITIES_FILE \<and>
     ((\<forall>b\<in>set pre. truthy (dict_get b ''end_time'')) \<longrightarrow>
        fst (get_active_activity s) = Some a) \<and>
     ((\<forall>b\<in>set pre. dict_get b ''id'' \<noteq> JStr ident) \<and> dict_get a ''id'' = JStr ident \<and>
      map_of a ''start_time'' = Some (JStr st) \<and>
      fromisoformat (filter (\<lambda>c. c \<noteq> CHR ''Z'') st) = Inr start \<and>
      ACTIVITIES_FILE @ ''.tmp'' \<notin> replace_denied s \<longrightarrow>
        (let updated = AList.update ''duration_seconds'' (JInt (timestamp now - timestamp start))
                         (AList.update ''end_time'' (JStr (isoformat now @ ''Z'')) a)
         in fst (end_activity s ident now) = Inr updated \<and>
            stored (snd (end_activity s ident now)) ACTIVITIES_FILE = pre @ updated # post \<and>
            truthy (dict_get updated ''end_time'')))"
    using start active found closes unfolding Let_def by blast
qed

text \<open>
  A collection with an ended record followed by a record whose \<^verbatim>\<open>end_time\<close> is
  empty: a start is refused, the second record is the active one, and ending it
  succeeds.
\<close>

theorem empty_end_time_is_open_witness:
  "stored (activities_store [closed_record, second_blank_record]) ACTIVITIES_FILE =
     [closed_record] @ second_blank_record # [] \<and>
   dict_get second_blank_record ''end_time'' = JStr [] \<and>
   truthy (dict_get closed_record ''end_time'') \<and>
   dict_get closed_record ''id'' \<noteq> JStr ''a2'' \<and>
   dict_get second_blank_record ''id'' = JStr ''a2'' \<and>
   fromisoformat ''2025-11-03T10:00:00'' = Inr ten_o_clock \<and>
   fst (start_activity (activities_store [closed_record, second_blank_record]) sports_run ''a3''
     nine_past_ten) =
     Inl (HTTPException 400
       ''An activity is already in progress. End it before starting a new one.'') \<and>
   fst (get_active_activity (activities_store [closed_record, second_blank_record])) =
     Some second_blank_record \<and>
   fst (end_activity (activities_store [closed_record, second_blank_record]) ''a2'' nine_past_ten) =
     Inr (activity_record ''a2'' ''sports'' ''2025-11-03T10:00:00Z''
            (JStr ''2025-11-03T10:00:09Z'') (JInt 9)) \<and>
   stored (snd (end_activity (activities_store [closed_record, second_blank_record]) ''a2''
     nine_past_ten)) ACTIVITIES_FILE =
     [closed_record, activity_record ''a2'' ''sports'' ''2025-11-03T10:00:00Z''
            (JStr ''2025-11-03T10:00:09Z'') (JInt 9)]"
  using empty_end_time_is_open [where s = "activities_store [closed_record, second_blank_record]"
      and pre = "[closed_record]" and a = second_blank_record and post = "[]"
      and payload = sports_run and uuid = "''a3''" and now = nine_past_ten and ident = "''a2''"
      and st = "''2025-11-03T10:00:00Z''" and start = ten_o_clock]
  by (simp add: end_activity_def start_activity_def get_active_activity_def Let_def
      example_defs eval_defs timestamp_def)

section \<open>At most one open record\<close>

lemma open_records_update:
  "dict_get u ''end_time'' \<noteq> JNull \<Longrightarrow>
   length (open_records (xs[i := u])) \<le> length (open_records xs)"
proof (induction xs arbitrary: i)
  case Nil
  then show ?case by simp
next
  case (Cons x xs)
  then show ?case
    by (cases i) (auto simp: open_records_def le_SucI)
qed

lemma start_activity_invariant:
  "at_most_one_open s \<Longrightarrow> at_most_one_open (snd (start_activity s payload uuid now))"
proof -
  assume inv: "at_most_one_open s"
  show ?thesis
  proof (cases "\<exists>a\<in>set (stored s ACTIVITIES_FILE).
      dict_get a ''end_time'' = JNull \<or> dict_get a ''end_time'' = JStr []")
    case True
    with inv show ?thesis
      by (simp add: at_most_one_open_def start_activity_cases Let_def stored_snd_read_json)
  next
    case False
    then have "open_records (stored s ACTIVITIES_FILE) = []"
      by (auto simp: open_records_def filter_empty_conv)
    with False inv show ?thesis
      by (simp add: at_most_one_open_def start_activity_cases Let_def stored_snd_read_json
          stored_write_json denied_snd_read_json open_records_def dict_get_def)
  qed
qed

lemma end_activity_invariant:
  "at_most_one_open s \<Longrightarrow> at_most_one_open (snd (end_activity s ident now))"
proof -
  assume inv: "at_most_one_open s"
  have upd: "length (open_records ((stored s ACTIVITIES_FILE)
      [i := AList.update ''duration_seconds'' d (AList.update ''end_time'' (JStr e) a)])) \<le> Suc 0"
    for i d e a
    using inv open_records_update [of "AList.update ''duration_seconds'' d
      (AList.update ''end_time'' (JStr e) a)" "stored s ACTIVITIES_FILE" i]
    by (simp add: at_most_one_open_def dict_get_update)
  from inv show ?thesis
    by (auto simp: at_most_one_open_def end_activity_cases Let_def stored_snd_read_json
        stored_write_json denied_snd_read_json upd split: option.splits sum.splits)
qed

text \<open>
  Claim C3. From a store whose activity collection has at most one record with an absent
  \<^verbatim>\<open>end_time\<close>, every state that a sequence of \<^verbatim>\<open>start_activity\<close> and
  \<^verbatim>\<open>end_activity\<close> calls goes through has at most one such record, whatever the
  requests, the identifiers drawn and the clock readings are, and whether the calls
  succeed or fail.
\<close>

theorem at_most_one_open_always:
  "at_most_one_open s \<Longrightarrow> \<forall>s'\<in>set (states s calls). at_most_one_open s'"
proof (induction calls arbitrary: s)
  case Nil
  then show ?case by simp
next
  case (Cons c calls)
  have "at_most_one_open (step s c)"
    using Cons.prems by (cases c) (simp_all add: start_activity_invariant end_activity_invariant)
  with Cons show ?case by simp
qed

text \<open>
  A start, a refused second start, the end of the first activity and a new start, from
  the empty store: the states hold 0, 1, 1, 0 and 1 open records.
\<close>

theorem at_most_one_open_always_witness:
  "at_most_one_open empty_store \<and>
   list_all at_most_one_open (states empty_store example_calls) \<and>
   map (\<lambda>s. length (open_records (stored s ACTIVITIES_FILE))) (states empty_store example_calls) =
     [0, 1, 1, 0, 1]"
  using at_most_one_open_always [of empty_store example_calls]
  by (simp add: list_all_iff at_most_one_open_def open_records_def example_calls_def
      start_activity_def end_activity_def Let_def example_defs eval_defs)

section \<open>Activity types\<close>















section \<open>The summary\<close>

lemma get_summary_cases:
  "get_summary s =
     (case summary_loop (stored s ACTIVITIES_FILE) [] of
        Inl e \<Rightarrow> (Inl e, snd (read_json s ACTIVITIES_FILE []))
      | Inr agg \<Rightarrow> (Inr \<lparr>dates = sort (map fst agg), data = agg\<rparr>, snd (read_json s ACTIVITIES_FILE [])))"
  by (simp add: get_summary_def stored_def split_beta Let_def split: sum.splits)

lemma map_of_setdefault:
  "map_of (setdefault agg k) = (case map_of agg k of None \<Rightarrow> (map_of agg)(k \<mapsto> []) | Some b \<Rightarrow> map_of agg)"
  by (auto simp: setdefault_def fun_eq_iff map_add_def split: option.splits)

lemma distinct_setdefault:
  "distinct (map fst agg) \<Longrightarrow> distinct (map fst (setdefault agg k))"
  by (auto simp: setdefault_def map_of_eq_None_iff split: option.splits)

lemma summary_loop_distinct:
  "summary_loop activities agg = Inr agg' \<Longrightarrow> distinct (map fst agg) \<Longrightarrow> distinct (map fst agg')"
proof (induction activities arbitrary: agg)
  case Nil
  then show ?case by simp
next
  case (Cons a activities)
  show ?case
  proof (cases "skipped a")
    case True
    with Cons show ?thesis by simp
  next
    case False
    with Cons.prems(1) obtain dk b n where
      "summary_loop activities
         (AList.update dk (AList.update (category_key a) (buckets_get b (category_key a) 0 + n) b)
            (setdefault agg dk)) = Inr agg'"
      by (auto simp: Let_def split: sum.splits option.splits)
    moreover have "distinct (map fst (AList.update dk
        (AList.update (category_key a) (buckets_get b (category_key a) 0 + n) b) (setdefault agg dk)))"
      using Cons.prems(2) by (simp add: distinct_update distinct_setdefault)
    ultimately show ?thesis by (rule Cons.IH)
  qed
qed

lemma lookup_step:
  assumes "map_of (setdefault agg dk) dk = Some b"
  shows "lookup (AList.update dk (AList.update cat (buckets_get b cat 0 + n) b) (setdefault agg dk)) d c =
     (if d = dk \<and> c = cat then Some ((case lookup agg dk cat of None \<Rightarrow> 0 | Some m \<Rightarrow> m) + n)
      else lookup agg d c)"
  using assms
  by (auto simp: lookup_def update_conv' map_of_setdefault buckets_get_def split: option.splits)

lemma summary_loop_lookup:
  "summary_loop activities agg = Inr agg' \<Longrightarrow>
   \<exists>ns. map seconds (filter (\<lambda>a. \<not> skipped a \<and> date_key a = Inr d \<and> category_key a = c) activities)
           = map Inr ns \<and>
         lookup agg' d c =
           (if ns = [] then lookup agg d c
            else Some ((case lookup agg d c of None \<Rightarrow> 0 | Some m \<Rightarrow> m) + sum_list ns))"
proof (induction activities arbitrary: agg)
  case Nil
  then show ?case by simp
next
  case (Cons a activities)
  let ?P = "\<lambda>a. \<not> skipped a \<and> date_key a = Inr d \<and> category_key a = c"
  show ?case
  proof (cases "skipped a")
    case True
    with Cons.prems have "summary_loop activities agg = Inr agg'" by simp
    from Cons.IH [OF this] True show ?thesis by simp
  next
    case False
    with Cons.prems obtain dk b n where
      dk: "date_key a = Inr dk" and b: "map_of (setdefault agg dk) dk = Some b"
      and n: "seconds a = Inr n"
      and loop: "summary_loop activities
         (AList.update dk (AList.update (category_key a) (buckets_get b (category_key a) 0 + n) b)
            (setdefault agg dk)) = Inr agg'"
      by (auto simp: Let_def split: sum.splits option.splits)
    from Cons.IH [OF loop] obtain ns where
      ns: "map seconds (filter ?P activities) = map Inr ns"
      and l: "lookup agg' d c =
           (if ns = [] then lookup (AList.update dk
                (AList.update (category_key a) (buckets_get b (category_key a) 0 + n) b)
                (setdefault agg dk)) d c
            else Some ((case lookup (AList.update dk
                (AList.update (category_key a) (buckets_get b (category_key a) 0 + n) b)
                (setdefault agg dk)) d c of None \<Rightarrow> 0 | Some m \<Rightarrow> m) + sum_list ns))"
      by blast
    note step = lookup_step [OF b, of "category_key a" n d c]
    show ?thesis
    proof (cases "?P a")
      case True
      with dk have eq: "d = dk" "c = category_key a" by simp_all
      from True have f: "filter ?P (a # activities) = a # filter ?P activities" by simp
      have m: "map seconds (filter ?P (a # activities)) = map Inr (n # ns)"
        unfolding f using ns n by simp
      have "lookup agg' d c =
          Some ((case lookup agg d c of None \<Rightarrow> 0 | Some m \<Rightarrow> m) + sum_list (n # ns))"
        using l step eq by (simp add: algebra_simps)
      then have "lookup agg' d c =
          (if n # ns = [] then lookup agg d c
           else Some ((case lookup agg d c of None \<Rightarrow> 0 | Some m \<Rightarrow> m) + sum_list (n # ns)))"
        by simp
      with m show ?thesis by blast
    next
      case False
      then have f: "filter ?P (a # activities) = filter ?P activities" by simp
      from False \<open>\<not> skipped a\<close> dk have "\<not> (d = dk \<and> c = category_key a)" by auto
      with step have "lookup (AList.update dk
                (AList.update (category_key a) (buckets_get b (category_key a) 0 + n) b)
                (setdefault agg dk)) d c = lookup agg d c" by simp
      with l have "lookup agg' d c =
           (if ns = [] then lookup agg d c
            else Some ((case lookup agg d c of None \<Rightarrow> 0 | Some m \<Rightarrow> m) + sum_list ns))"
        by simp
      with ns show ?thesis unfolding f by blast
    qed
  qed
qed

text \<open>
  Claim C2, amended. When \<^verbatim>\<open>get_summary\<close> returns, \<^verbatim>\<open>data[d][c]\<close> is present
  exactly when some record of the collection that the loop does not skip has the date
  key \<open>d\<close> and the category key \<open>c\<close>, and it is then the sum of the
  \<^verbatim>\<open>duration_seconds\<close> of all these records. A record is skipped when its
  \<^verbatim>\<open>end_time\<close> or its \<^verbatim>\<open>duration_seconds\<close> is false in Python's sense. The
  date key is the first ten characters of \<^verbatim>\<open>start_time\<close>. The category key is
  the literal "other" when the record has no category key, and the stored category,
  the empty string included, when it has one.
\<close>

theorem summary_accumulates:
  "(fst (get_summary s) = Inr r \<longrightarrow>
      (\<exists>ns. map seconds (filter (\<lambda>a. \<not> skipped a \<and> date_key a = Inr d \<and> category_key a = c)
                (stored s ACTIVITIES_FILE)) = map Inr ns \<and>
            lookup (data r) d c = (if ns = [] then None else Some (sum_list ns)))) \<and>
   (skipped a = (\<not> truthy (dict_get a ''end_time'') \<or> \<not> truthy (dict_get a ''duration_seconds''))) \<and>
   (map_of a ''start_time'' = Some (JStr st) \<longrightarrow> date_key a = Inr (take 10 st)) \<and>
   (map_of a ''activity_category'' = None \<longrightarrow> category_key a = JStr ''other'') \<and>
   (map_of a ''activity_category'' = Some v \<longrightarrow> category_key a = v) \<and>
   (map_of a ''duration_seconds'' = Some (JInt n) \<longrightarrow> seconds a = Inr n)"
proof -
  have "\<exists>ns. map seconds (filter (\<lambda>a. \<not> skipped a \<and> date_key a = Inr d \<and> category_key a = c)
                (stored s ACTIVITIES_FILE)) = map Inr ns \<and>
            lookup (data r) d c = (if ns = [] then None else Some (sum_list ns))"
    if "fst (get_summary s) = Inr r"
  proof -
    from that have "summary_loop (stored s ACTIVITIES_FILE) [] = Inr (data r)"
      by (auto simp: get_summary_cases split: sum.splits)
    from summary_loop_lookup [OF this, of d c] obtain ns where
      ns: "map seconds (filter (\<lambda>a. \<not> skipped a \<and> date_key a = Inr d \<and> category_key a = c)
             (stored s ACTIVITIES_FILE)) = map Inr ns"
      and l: "lookup (data r) d c =
           (if ns = [] then lookup [] d c
            else Some ((case lookup [] d c of None \<Rightarrow> 0 | Some m \<Rightarrow> m) + sum_list ns))"
      by blast
    have "lookup [] d c = None" by (simp add: lookup_def)
    with l have "lookup (data r) d c = (if ns = [] then None else Some (sum_list ns))"
      by simp
    with ns show ?thesis by blast
  qed
  then show ?thesis
    by (simp add: skipped_def date_key_def category_key_def seconds_def dict_item_def
        dict_get_default_def)
qed

text \<open>
  The claim as stated fails on an empty category: the seven seconds of such a record
  are kept under the empty string, and no bucket "other" exists.
\<close>

theorem summary_blank_category:
  "map_of blank_category_record ''activity_category'' = Some (JStr []) \<and>
   fst (get_summary (activities_store [blank_category_record])) =
     Inr \<lparr>dates = [''2025-11-03''], data = [(''2025-11-03'', [(JStr [], 7)])]\<rparr>"
  by (simp add: get_summary_def skipped_def date_key_def category_key_def seconds_def
      setdefault_def buckets_get_def Let_def example_defs eval_defs)

lemmas summary_defs =
  get_summary_def skipped_def date_key_def category_key_def seconds_def setdefault_def
  buckets_get_def lookup_def

text \<open>
  Four records: two "sports" records of 3 November, one of that day with an empty
  category, and one of 2 November without a category key.
\<close>

theorem summary_accumulates_witness:
  "fst (get_summary mixed_store) = Inr mixed_summary \<and>
   map seconds (filter (\<lambda>a. \<not> skipped a \<and> date_key a = Inr ''2025-11-03'' \<and>
       category_key a = JStr ''sports'')
     [closed_record, blank_category_record, sports_noon, no_category_record]) =
     map Inr [5400, 1800] \<and>
   lookup (data mixed_summary) ''2025-11-03'' (JStr ''sports'') = Some 7200 \<and>
   lookup (data mixed_summary) ''2025-11-02'' (JStr ''sports'') = None \<and>
   map_of no_category_record ''activity_category'' = None \<and>
   category_key no_category_record = JStr ''other'' \<and>
   lookup (data mixed_summary) ''2025-11-02'' (JStr ''other'') = Some 60 \<and>
   map_of closed_record ''start_time'' = Some (JStr ''2025-11-03T10:00:00Z'') \<and>
   date_key closed_record = Inr ''2025-11-03'' \<and>
   map_of closed_record ''activity_category'' = Some (JStr ''sports'') \<and>
   map_of closed_record ''duration_seconds'' = Some (JInt 5400) \<and>
   seconds closed_record = Inr 5400 \<and> \<not> skipped closed_record"
  using summary_accumulates [where s = mixed_store and r = mixed_summary and d = "''2025-11-03''"
      and c = "JStr ''sports''" and a = closed_record and st = "''2025-11-03T10:00:00Z''"
      and v = "JStr ''sports''" and n = 5400]
    summary_accumulates [where s = mixed_store and r = mixed_summary and d = "''2025-11-02''"
      and c = "JStr ''sports''" and a = no_category_record and st = "''2025-11-02T23:59:00Z''"
      and v = "JStr ''sports''" and n = 60]
  by (simp add: summary_defs Let_def example_defs eval_defs)

text \<open>
  Claim C8. When \<^verbatim>\<open>get_summary\<close> returns, \<^verbatim>\<open>dates\<close> holds exactly the date
  keys of \<^verbatim>\<open>data\<close>, each once, in ascending order of the strings (characters
  compare by their codes). The two "sports" records of 3 November with 5400 and 1800
  seconds give the one date and the one bucket of 7200 seconds.
\<close>

theorem summary_dates_sorted:
  "(fst (get_summary s) = Inr r \<longrightarrow>
      sorted (dates r) \<and> distinct (dates r) \<and> set (dates r) = fst ` set (data r)) \<and>
   fst (get_summary (activities_store [closed_record, sports_noon])) =
     Inr \<lparr>dates = [''2025-11-03''], data = [(''2025-11-03'', [(JStr ''sports'', 7200)])]\<rparr>"
proof -
  have "sorted (dates r) \<and> distinct (dates r) \<and> set (dates r) = fst ` set (data r)"
    if "fst (get_summary s) = Inr r"
  proof -
    from that obtain agg where loop: "summary_loop (stored s ACTIVITIES_FILE) [] = Inr agg"
      and r: "r = \<lparr>dates = sort (map fst agg), data = agg\<rparr>"
      by (auto simp: get_summary_cases split: sum.splits)
    from summary_loop_distinct [OF loop] have "distinct (map fst agg)" by simp
    with r show ?thesis by simp
  qed
  moreover have "fst (get_summary (activities_store [closed_record, sports_noon])) =
     Inr \<lparr>dates = [''2025-11-03''], data = [(''2025-11-03'', [(JStr ''sports'', 7200)])]\<rparr>"
    by (simp add: get_summary_def skipped_def date_key_def category_key_def seconds_def
      setdefault_def buckets_get_def Let_def example_defs eval_defs)
  ultimately show ?thesis by blast
qed

text \<open>
  On the four records above the dates come out in ascending order although the data
  keeps the order in which the dates were met.
\<close>

theorem summary_dates_sorted_witness:
  "fst (get_summary mixed_store) = Inr mixed_summary \<and>
   map fst (data mixed_summary) = [''2025-11-03'', ''2025-11-02''] \<and>
   dates mixed_summary = [''2025-11-02'', ''2025-11-03''] \<and>
   sorted (dates mixed_summary) \<and> distinct (dates mixed_summary) \<and>
   set (dates mixed_summary) = fst ` set (data mixed_summary)"
  using summary_dates_sorted [where s = mixed_store and r = mixed_summary]
  by (simp add: summary_defs Let_def example_defs eval_defs)

text \<open>
  Records which the loop skips can be dropped from the collection beforehand.
\<close>

lemma summary_loop_filter:
  "summary_loop activities agg = summary_loop (filter (\<lambda>a. \<not> skipped a) activities) agg"
proof (induction activities arbitrary: agg)
  case Nil
  show ?case by simp
next
  case (Cons a activities)
  show ?case
  proof (cases "skipped a")
    case True
    with Cons show ?thesis by simp
  next
    case False
    then show ?thesis
      by (simp add: Cons.IH Let_def split: sum.splits option.splits)
  qed
qed

lemma stored_activities_store: "stored (activities_store xs) ACTIVITIES_FILE = xs"
  by (simp add: stored_def read_json_def activities_store_def)

text \<open>
  Claim C1, amended. The summary of a store is the summary of its records that are not
  skipped, so a skipped record contributes nothing, neither a date nor a bucket nor
  seconds. A record whose \<^verbatim>\<open>end_time\<close> is absent or the empty string, or whose
  \<^verbatim>\<open>duration_seconds\<close> is absent, is skipped; a record with a non-empty
  \<^verbatim>\<open>end_time\<close> and a \<^verbatim>\<open>duration_seconds\<close> other than 0 is not skipped, and
  when the summary returns, its date is among the dates and its category has a bucket
  under that date.
\<close>

theorem summary_excludes_open_records:
  "fst (get_summary s) =
     fst (get_summary (activities_store (filter (\<lambda>a. \<not> skipped a) (stored s ACTIVITIES_FILE)))) \<and>
   (dict_get a ''end_time'' = JNull \<or> dict_get a ''end_time'' = JStr [] \<or>
    dict_get a ''duration_seconds'' = JNull \<longrightarrow> skipped a) \<and>
   (dict_get a ''end_time'' = JStr e \<and> e \<noteq> [] \<and> dict_get a ''duration_seconds'' = JInt n \<and> n \<noteq> 0
      \<longrightarrow> \<not> skipped a) \<and>
   (fst (get_summary s) = Inr r \<and> a \<in> set (stored s ACTIVITIES_FILE) \<and> \<not> skipped a \<and>
    date_key a = Inr d \<longrightarrow>
      d \<in> set (dates r) \<and> (\<exists>total. lookup (data r) d (category_key a) = Some total))"
proof -
  have same: "fst (get_summary s) =
     fst (get_summary (activities_store (filter (\<lambda>a. \<not> skipped a) (stored s ACTIVITIES_FILE))))"
    using summary_loop_filter [of "stored s ACTIVITIES_FILE" "[]"]
    by (simp add: get_summary_cases stored_activities_store split: sum.splits)
  have included: "d \<in> set (dates r) \<and> (\<exists>total. lookup (data r) d (category_key a) = Some total)"
    if r: "fst (get_summary s) = Inr r" and a: "a \<in> set (stored s ACTIVITIES_FILE)"
      "\<not> skipped a" "date_key a = Inr d"
  proof -
    from r have loop: "summary_loop (stored s ACTIVITIES_FILE) [] = Inr (data r)"
      and dates: "dates r = sort (map fst (data r))"
      by (auto simp: get_summary_cases split: sum.splits)
    let ?rows = "filter (\<lambda>b. \<not> skipped b \<and> date_key b = Inr d \<and> category_key b = category_key a)
      (stored s ACTIVITIES_FILE)"
    from summary_loop_lookup [OF loop, of d "category_key a"] obtain ns where
      ns: "map seconds ?rows = map Inr ns"
      and l: "lookup (data r) d (category_key a) =
           (if ns = [] then lookup [] d (category_key a)
            else Some ((case lookup [] d (category_key a) of None \<Rightarrow> 0 | Some m \<Rightarrow> m) + sum_list ns))"
      by blast
    from a have "a \<in> set ?rows" by simp
    then have rows: "?rows \<noteq> []" by (metis empty_iff list.set(1))
    have "ns \<noteq> []"
    proof
      assume "ns = []"
      with ns have "map seconds ?rows = []" by (simp only: list.map)
      then have "?rows = []" by (simp only: map_is_Nil_conv)
      with rows show False by (rule notE)
    qed
    with l obtain total where t: "lookup (data r) d (category_key a) = Some total" by auto
    then have "map_of (data r) d \<noteq> None"
      by (auto simp: lookup_def split: option.splits)
    then have "d \<in> fst ` set (data r)"
      by (simp add: map_of_eq_None_iff)
    with dates t show ?thesis by auto
  qed
  have open_skipped: "skipped a"
    if "dict_get a ''end_time'' = JNull \<or> dict_get a ''end_time'' = JStr [] \<or>
      dict_get a ''duration_seconds'' = JNull"
    using that by (auto simp: skipped_def)
  have closed_kept: "\<not> skipped a"
    if "dict_get a ''end_time'' = JStr e" "e \<noteq> []" "dict_get a ''duration_seconds'' = JInt n"
      "n \<noteq> 0"
    using that by (simp add: skipped_def)
  from same open_skipped closed_kept included show ?thesis by blast
qed

text \<open>
  A record that carries both fields and contributes nothing: \<^verbatim>\<open>end_time\<close> is the
  empty string, which the service reads as "still open" everywhere, and
  \<^verbatim>\<open>duration_seconds\<close> is 5. The loop also tests \<^verbatim>\<open>not a.get("duration_seconds")\<close>,
  which is true of 0, under the comment "skip ongoing activities in summary": an
  activity started and ended in the same second is a closed record of 0 seconds, and
  the summary of the store that holds it has no date and no bucket.
\<close>

theorem summary_skips_present_fields:
  "map_of blank_end_with_duration ''end_time'' = Some (JStr []) \<and>
   map_of blank_end_with_duration ''duration_seconds'' = Some (JInt 5) \<and>
   fst (get_summary (activities_store [blank_end_with_duration])) = Inr \<lparr>dates = [], data = []\<rparr> \<and>
   fst (end_activity (snd (start_activity empty_store sports_run ''a1'' ten_o_clock)) ''a1''
     ten_o_clock) =
     Inr [(''id'', JStr ''a1''), (''activity_category'', JStr ''Sports''),
          (''activity_name'', JStr ''Run''), (''start_time'', JStr ''2025-11-03T10:00:00Z''),
          (''end_time'', JStr ''2025-11-03T10:00:00Z''), (''duration_seconds'', JInt 0)] \<and>
   fst (get_summary (snd (end_activity (snd (start_activity empty_store sports_run ''a1''
     ten_o_clock)) ''a1'' ten_o_clock))) = Inr \<lparr>dates = [], data = []\<rparr>"
  by (simp add: get_summary_def start_activity_def end_activity_def skipped_def Let_def
      example_defs eval_defs)

text \<open>
  Of an open record, a closed record of 5400 seconds and the record with the empty
  \<^verbatim>\<open>end_time\<close>, only the closed one is summarised.
\<close>

theorem summary_excludes_open_records_witness:
  "fst (get_summary (activities_store [open_record, closed_record, blank_end_with_duration])) =
     fst (get_summary (activities_store [closed_record])) \<and>
   filter (\<lambda>a. \<not> skipped a) [open_record, closed_record, blank_end_with_duration] = [closed_record] \<and>
   dict_get open_record ''end_time'' = JNull \<and> skipped open_record \<and>
   dict_get blank_end_with_duration ''end_time'' = JStr [] \<and> skipped blank_end_with_duration \<and>
   dict_get closed_record ''end_time'' = JStr ''2025-11-03T11:30:00Z'' \<and>
   dict_get closed_record ''duration_seconds'' = JInt 5400 \<and> \<not> skipped closed_record \<and>
   date_key closed_record = Inr ''2025-11-03'' \<and>
   fst (get_summary (activities_store [open_record, closed_record, blank_end_with_duration])) =
     Inr \<lparr>dates = [''2025-11-03''], data = [(''2025-11-03'', [(JStr ''sports'', 5400)])]\<rparr> \<and>
   lookup [(''2025-11-03'', [(JStr ''sports'', 5400)])] ''2025-11-03'' (category_key closed_record) =
     Some 5400"
  using summary_excludes_open_records [where
      s = "activities_store [open_record, closed_record, blank_end_with_duration]"
      and a = open_record and e = "[]" and n = 0]
    summary_excludes_open_records [where
      s = "activities_store [open_record, closed_record, blank_end_with_duration]"
      and a = blank_end_with_duration and e = "[]" and n = 0]
    summary_excludes_open_records [where
      s = "activities_store [open_record, closed_record, blank_end_with_duration]"
      and a = closed_record and e = "''2025-11-03T11:30:00Z''" and n = 5400
      and r = "\<lparr>dates = [''2025-11-03''], data = [(''2025-11-03'', [(JStr ''sports'', 5400)])]\<rparr>"
      and d = "''2025-11-03''"]
  by (simp add: summary_defs Let_def example_defs eval_defs)

end
